theory Spec2Isabelle
  imports Complex_Main "HOL-Library.Word"
begin

section \<open>JavaScript strings\<close>

text \<open>
  A JavaScript string is a sequence of UTF-16 code units. The literals of the source
  are written with \<open>str\<close>; the bullet of the checkout error message (U+2022) is not ASCII
  and is given by its code unit.
\<close>

type_synonym jsstring = "16 word list"

definition str :: "string \<Rightarrow> jsstring" where
  "str s = map of_char s"

text \<open>
  \<open>String.prototype.trim\<close> removes WhiteSpace and LineTerminator code units from both
  ends: TAB, LF, VT, FF, CR, SPACE, NBSP, U+1680, U+2000 to U+200A, U+2028, U+2029,
  U+202F, U+205F, U+3000 and U+FEFF.
\<close>

definition isWhiteSpace :: "16 word \<Rightarrow> bool" where
  "isWhiteSpace c \<longleftrightarrow>
     c = 0x0009 \<or> c = 0x000A \<or> c = 0x000B \<or> c = 0x000C \<or> c = 0x000D \<or> c = 0x0020 \<or>
     c = 0x00A0 \<or> c = 0x1680 \<or> (0x2000 \<le> c \<and> c \<le> 0x200A) \<or> c = 0x2028 \<or> c = 0x2029 \<or>
     c = 0x202F \<or> c = 0x205F \<or> c = 0x3000 \<or> c = 0xFEFF"

definition trimStart :: "jsstring \<Rightarrow> jsstring" where
  "trimStart s = dropWhile isWhiteSpace s"

definition trimEnd :: "jsstring \<Rightarrow> jsstring" where
  "trimEnd s = rev (dropWhile isWhiteSpace (rev s))"

definition trim :: "jsstring \<Rightarrow> jsstring" where
  "trim s = trimStart (trimEnd s)"

text \<open>Truthiness of a string that may be absent: \<open>undefined\<close>, \<open>null\<close> and \<open>''\<close> are falsy.\<close>

fun truthy :: "jsstring option \<Rightarrow> bool" where
  "truthy None = False"
| "truthy (Some s) = (s \<noteq> [])"

text \<open>\<open>a || b\<close> for a string that may be absent and a string default.\<close>

definition or_else :: "jsstring option \<Rightarrow> jsstring \<Rightarrow> jsstring" where
  "or_else a b = (if truthy a then the a else b)"

section \<open>Admin products page: variant status\<close>

record ProductVariant =
  variant_id :: int
  variant_size :: jsstring
  color :: jsstring
  variant_name :: jsstring
  display_name :: jsstring
  sku :: jsstring
  price_cents :: int
  stock_quantity :: int
  available :: bool
  actually_available :: bool
  low_stock :: bool

record badge =
  label :: jsstring
  className :: jsstring

definition getVariantStatus :: "ProductVariant \<Rightarrow> jsstring \<Rightarrow> badge" where
  "getVariantStatus variant inventoryLevel =
     (if \<not> actually_available variant then
        (if inventoryLevel = str ''variant'' \<and> stock_quantity variant \<le> 0
         then \<lparr>label = str ''Out of Stock'', className = str ''bg-red-100 text-red-800''\<rparr>
         else \<lparr>label = str ''Disabled'', className = str ''bg-gray-100 text-gray-800''\<rparr>)
      else \<lparr>label = str ''Available'', className = str ''bg-green-100 text-green-800''\<rparr>)"

section \<open>Checkout page: state\<close>

record ShippingAddress =
  name_addr :: jsstring
  street1 :: jsstring
  street2 :: "jsstring option"
  city :: jsstring
  state :: jsstring
  zip_addr :: jsstring
  country :: "jsstring option"

record ShippingMethod =
  carrier :: jsstring
  service :: jsstring
  rate_cents :: int
  rate_id :: "jsstring option"
  delivery_days :: "int option"

datatype delivery = pickup | shipping

datatype app_mode = test | production

text \<open>
  The \<open>useState\<close> cells of \<open>CheckoutPage\<close>, and what its hooks hand it: the sign-in flags
  of the identity provider and the loaded application mode (absent until loaded).
\<close>

record checkout =
  name :: jsstring
  email :: jsstring
  phone :: jsstring
  deliveryMethod :: delivery
  shippingAddress :: ShippingAddress
  shippingMethod :: "ShippingMethod option"
  availableShippingRates :: "ShippingMethod list"
  calculatingShipping :: bool
  shippingError :: "jsstring option"
  loading :: bool
  error :: "jsstring option"
  isSignedIn :: bool
  authLoaded :: bool
  appConfig :: "app_mode option"

definition isFormValid :: "checkout \<Rightarrow> bool" where
  "isFormValid c =
     (let hasContactInfo = (trim (name c) \<noteq> [] \<and> trim (email c) \<noteq> [] \<and> trim (phone c) \<noteq> [])
      in if deliveryMethod c = pickup then hasContactInfo
         else
           (let hasAddress =
                  (trim (street1 (shippingAddress c)) \<noteq> [] \<and>
                   trim (city (shippingAddress c)) \<noteq> [] \<and>
                   trim (state (shippingAddress c)) \<noteq> [] \<and>
                   trim (zip_addr (shippingAddress c)) \<noteq> [])
            in hasContactInfo \<and> hasAddress \<and> shippingMethod c \<noteq> None))"

text \<open>
  The claims speak of a field that is non-blank: it holds at least one code unit that
  is not white space.
\<close>

definition non_blank :: "jsstring \<Rightarrow> bool" where
  "non_blank s \<longleftrightarrow> (\<exists>c \<in> set s. \<not> isWhiteSpace c)"

section \<open>Cart store\<close>

text \<open>
  Modelled from the spec: the declarations of \<open>types/cart\<close> are not among the sources.
  The spec gives the cart an ordered list of items, a computed item count and a computed
  subtotal in integer currency sub-units, and the item a quantity and a subtotal.
\<close>

record CartItem =
  item_id :: int
  quantity :: int
  item_subtotal_cents :: int

record Cart =
  items :: "CartItem list"
  item_count :: int
  subtotal_cents :: int

record CartStore =
  cart :: "Cart option"
  isLoading :: bool
  isOpen :: bool
  sessionId :: "jsstring option"

subsection \<open>Requests, replies and the world outside\<close>

datatype http_method = GET | POST | PUT | DELETE

datatype endpoint = cart_url | cart_items_url | cart_item_url int | cart_validate_url

datatype payload = no_payload | item_payload int int | quantity_payload int

record request =
  req_method :: http_method
  req_url :: endpoint
  req_data :: payload
  req_session :: "jsstring option"

record issue =
  message :: jsstring

text \<open>
  What a handler reads of a caught error: \<open>error.response?.data?.error\<close> and
  \<open>error.response?.data?.issues\<close>, each absent when the error has no such part.
\<close>

record api_error =
  response_error :: "jsstring option"
  response_issues :: "issue list option"

datatype 'a reply = resolved 'a | rejected api_error

record PaymentMethod =
  payment_token :: "jsstring option"
  payment_type :: jsstring

record orderData =
  order_email :: jsstring
  order_phone :: jsstring
  payment_method :: PaymentMethod
  shipping_address :: ShippingAddress
  shipping_method :: ShippingMethod

record CreateOrderResponse =
  success :: bool
  order_id :: int

datatype route = products_route | order_route int

text \<open>
  Every call that leaves the page is recorded, in order. The services behind them
  (\<open>services/api\<close>, the identity provider) are not among the sources: they are the
  parameter \<open>env\<close>, which answers each call from the calls made so far. A request of
  the store is answered by \<open>resolved d\<close>, where \<open>d\<close> is \<open>response.data\<close>: \<open>None\<close> when the
  body is \<open>null\<close> or \<open>undefined\<close>, an object otherwise.
\<close>

datatype call =
    Http request
  | GetToken
  | CalculateRates ShippingAddress "jsstring option" "jsstring option"
  | CreateOrder orderData "jsstring option" "jsstring option"
  | Navigate route
  | Alert jsstring

record env =
  api :: "call list \<Rightarrow> request \<Rightarrow> Cart option reply"
  getToken :: "call list \<Rightarrow> jsstring option reply"
  calculateRates ::
    "call list \<Rightarrow> ShippingAddress \<Rightarrow> jsstring option \<Rightarrow> jsstring option \<Rightarrow> ShippingMethod list reply"
  createOrder ::
    "call list \<Rightarrow> orderData \<Rightarrow> jsstring option \<Rightarrow> jsstring option \<Rightarrow> CreateOrderResponse reply"

record world =
  store :: CartStore
  trace :: "call list"

definition set_store :: "(CartStore \<Rightarrow> CartStore) \<Rightarrow> world \<Rightarrow> world" where
  "set_store f w = w\<lparr>store := f (store w)\<rparr>"

definition emit :: "call \<Rightarrow> world \<Rightarrow> world" where
  "emit c w = w\<lparr>trace := trace w @ [c]\<rparr>"

definition http :: "env \<Rightarrow> request \<Rightarrow> world \<Rightarrow> Cart option reply \<times> world" where
  "http e req w = (api e (trace w) req, emit (Http req) w)"

subsection \<open>Session identifier\<close>

text \<open>
  The browser: \<open>localStorage\<close> and the source of \<open>crypto.randomUUID()\<close>, which hands out
  \<open>uuid_supply 0\<close>, \<open>uuid_supply 1\<close>, ... and counts how many it has generated.
\<close>

record browser =
  localStorage :: "jsstring \<rightharpoonup> jsstring"
  uuid_supply :: "nat \<Rightarrow> jsstring"
  uuid_count :: nat

definition randomUUID :: "browser \<Rightarrow> jsstring \<times> browser" where
  "randomUUID b = (uuid_supply b (uuid_count b), b\<lparr>uuid_count := Suc (uuid_count b)\<rparr>)"

definition getSessionId :: "browser \<Rightarrow> jsstring \<times> browser" where
  "getSessionId b =
     (let sessionId = localStorage b (str ''cart_session_id'')
      in if \<not> truthy sessionId then
           (let (u, b1) = randomUUID b
            in (u, b1\<lparr>localStorage := (localStorage b1)(str ''cart_session_id'' \<mapsto> u)\<rparr>))
         else (the sessionId, b))"

text \<open>The identifier returned by the last of \<open>Suc n\<close> calls in a row, and the browser after them.\<close>

fun getSessionId_again :: "nat \<Rightarrow> browser \<Rightarrow> jsstring \<times> browser" where
  "getSessionId_again 0 b = getSessionId b"
| "getSessionId_again (Suc n) b = getSessionId_again n (snd (getSessionId b))"

subsection \<open>Store actions\<close>

definition fetchCart :: "env \<Rightarrow> world \<Rightarrow> world" where
  "fetchCart e w0 =
     (let w1 = set_store (\<lambda>s. s\<lparr>isLoading := True\<rparr>) w0;
          sid = sessionId (store w1);
          (r, w2) = http e \<lparr>req_method = GET, req_url = cart_url, req_data = no_payload,
                            req_session = sid\<rparr> w1
      in case r of
           resolved d \<Rightarrow> set_store (\<lambda>s. s\<lparr>cart := d, isLoading := False\<rparr>) w2
         | rejected err \<Rightarrow> set_store (\<lambda>s. s\<lparr>isLoading := False\<rparr>) w2)"

text \<open>
  A \<open>TypeError\<close> raised by the page's own code has no \<open>response\<close>: a handler reads
  neither field from it.
\<close>

definition type_error :: api_error where
  "type_error = \<lparr>response_error = None, response_issues = None\<rparr>"

text \<open>The \<open>catch\<close> block of \<open>addItem\<close>: clear the flag, alert, throw the error again.\<close>

definition addItem_catch :: "api_error \<Rightarrow> world \<Rightarrow> (api_error + unit) \<times> world" where
  "addItem_catch err w =
     (let w1 = set_store (\<lambda>s. s\<lparr>isLoading := False\<rparr>) w;
          errorMessage = or_else (response_error err) (str ''Failed to add item to cart'')
      in (Inl err, emit (Alert errorMessage) w1))"

text \<open>
  After the cart is fetched again, \<open>addItem\<close> reads \<open>response.data.message\<close> for its log
  line. On a body that is \<open>null\<close> or \<open>undefined\<close> that read throws a \<open>TypeError\<close> inside
  the \<open>try\<close> block, before the panel is opened.
\<close>

definition addItem :: "env \<Rightarrow> int \<Rightarrow> int \<Rightarrow> world \<Rightarrow> (api_error + unit) \<times> world" where
  "addItem e variantId qty w0 =
     (let w1 = set_store (\<lambda>s. s\<lparr>isLoading := True\<rparr>) w0;
          sid = sessionId (store w1);
          (r, w2) = http e \<lparr>req_method = POST, req_url = cart_items_url,
                            req_data = item_payload variantId qty, req_session = sid\<rparr> w1
      in case r of
           resolved d \<Rightarrow>
             (let w3 = fetchCart e w2
              in case d of
                   None \<Rightarrow> addItem_catch type_error w3
                 | Some body \<Rightarrow>
                     (Inr (), set_store (\<lambda>s. s\<lparr>isLoading := False, isOpen := True\<rparr>) w3))
         | rejected err \<Rightarrow> addItem_catch err w2)"

definition updateQuantity :: "env \<Rightarrow> int \<Rightarrow> int \<Rightarrow> world \<Rightarrow> (api_error + unit) \<times> world" where
  "updateQuantity e cartItemId qty w0 =
     (let w1 = set_store (\<lambda>s. s\<lparr>isLoading := True\<rparr>) w0;
          sid = sessionId (store w1);
          (r, w2) = http e \<lparr>req_method = PUT, req_url = cart_item_url cartItemId,
                            req_data = quantity_payload qty, req_session = sid\<rparr> w1
      in case r of
           resolved d \<Rightarrow>
             (let w3 = fetchCart e w2
              in (Inr (), set_store (\<lambda>s. s\<lparr>isLoading := False\<rparr>) w3))
         | rejected err \<Rightarrow>
             (let w3 = set_store (\<lambda>s. s\<lparr>isLoading := False\<rparr>) w2;
                  errorMessage = or_else (response_error err) (str ''Failed to update quantity'')
              in (Inl err, emit (Alert errorMessage) w3)))"

definition removeItem :: "env \<Rightarrow> int \<Rightarrow> world \<Rightarrow> (api_error + unit) \<times> world" where
  "removeItem e cartItemId w0 =
     (let w1 = set_store (\<lambda>s. s\<lparr>isLoading := True\<rparr>) w0;
          sid = sessionId (store w1);
          (r, w2) = http e \<lparr>req_method = DELETE, req_url = cart_item_url cartItemId,
                            req_data = no_payload, req_session = sid\<rparr> w1
      in case r of
           resolved d \<Rightarrow>
             (let w3 = fetchCart e w2
              in (Inr (), set_store (\<lambda>s. s\<lparr>isLoading := False\<rparr>) w3))
         | rejected err \<Rightarrow> (Inl err, set_store (\<lambda>s. s\<lparr>isLoading := False\<rparr>) w2))"

definition clearCart :: "env \<Rightarrow> world \<Rightarrow> (api_error + unit) \<times> world" where
  "clearCart e w0 =
     (let w1 = set_store (\<lambda>s. s\<lparr>isLoading := True\<rparr>) w0;
          sid = sessionId (store w1);
          (r, w2) = http e \<lparr>req_method = DELETE, req_url = cart_url, req_data = no_payload,
                            req_session = sid\<rparr> w1
      in case r of
           resolved d \<Rightarrow> (Inr (), set_store (\<lambda>s. s\<lparr>cart := None, isLoading := False\<rparr>) w2)
         | rejected err \<Rightarrow> (Inl err, set_store (\<lambda>s. s\<lparr>isLoading := False\<rparr>) w2))"

text \<open>
  \<open>cart?.item_count || 0\<close> and \<open>(cart?.subtotal_cents || 0) / 100\<close>: an absent cart and a
  zero field both give the default. The quotient is taken in the rationals.
\<close>

definition itemCount :: "CartStore \<Rightarrow> int" where
  "itemCount s =
     (case cart s of None \<Rightarrow> 0
      | Some c \<Rightarrow> if item_count c \<noteq> 0 then item_count c else 0)"

definition subtotal :: "CartStore \<Rightarrow> rat" where
  "subtotal s =
     of_int (case cart s of None \<Rightarrow> 0
             | Some c \<Rightarrow> if subtotal_cents c \<noteq> 0 then subtotal_cents c else 0) / 100"

text \<open>The requests among the calls recorded.\<close>

fun requests :: "call list \<Rightarrow> request list" where
  "requests [] = []"
| "requests (Http r # cs) = r # requests cs"
| "requests (c # cs) = requests cs"

section \<open>Checkout page: actions\<close>

text \<open>The token is asked for only when the visitor is signed in and the provider has loaded.\<close>

definition acquireToken :: "env \<Rightarrow> checkout \<Rightarrow> world \<Rightarrow> jsstring option reply \<times> world" where
  "acquireToken e c w =
     (if isSignedIn c \<and> authLoaded c then (getToken e (trace w), emit GetToken w)
      else (resolved None, w))"

text \<open>The address object that \<open>handleCalculateShipping\<close> builds for the rate service.\<close>

definition rate_address :: "checkout \<Rightarrow> ShippingAddress" where
  "rate_address c =
     \<lparr>name_addr = name c,
      street1 = street1 (shippingAddress c),
      street2 = street2 (shippingAddress c),
      city = city (shippingAddress c),
      state = state (shippingAddress c),
      zip_addr = zip_addr (shippingAddress c),
      country = Some (or_else (country (shippingAddress c)) (str ''US''))\<rparr>"

text \<open>The \<open>try\<close> block of \<open>handleCalculateShipping\<close>: \<open>Inl\<close> is the error thrown out of it.\<close>

definition calculate_try :: "env \<Rightarrow> checkout \<Rightarrow> world \<Rightarrow> (api_error + unit) \<times> checkout \<times> world" where
  "calculate_try e c w0 =
     (case acquireToken e c w0 of
        (rejected err, w1) \<Rightarrow> (Inl err, c, w1)
      | (resolved token, w1) \<Rightarrow>
          (let address = rate_address c;
               sid = sessionId (store w1);
               r = calculateRates e (trace w1) address sid token;
               w2 = emit (CalculateRates address sid token) w1
           in case r of
                rejected err \<Rightarrow> (Inl err, c, w2)
              | resolved rates \<Rightarrow>
                  (let c1 = c\<lparr>availableShippingRates := rates\<rparr>;
                       c2 = (case rates of [] \<Rightarrow> c1 | r0 # _ \<Rightarrow> c1\<lparr>shippingMethod := Some r0\<rparr>)
                   in (Inr (), c2, w2))))"

definition handleCalculateShipping :: "env \<Rightarrow> checkout \<times> world \<Rightarrow> checkout \<times> world" where
  "handleCalculateShipping e cw =
     (let (c, w) = cw
      in if street1 (shippingAddress c) = [] \<or> city (shippingAddress c) = [] \<or>
            state (shippingAddress c) = [] \<or> zip_addr (shippingAddress c) = []
         then (c\<lparr>shippingError :=
                   Some (str ''Please fill out all required shipping address fields'')\<rparr>, w)
         else
           (let c1 = c\<lparr>calculatingShipping := True, shippingError := None\<rparr>;
                (r, c2, w2) = calculate_try e c1 w;
                c3 = (case r of
                        Inl err \<Rightarrow>
                          c2\<lparr>shippingError :=
                               Some (or_else (response_error err)
                                       (str ''Failed to calculate shipping. Please try again.''))\<rparr>
                      | Inr u \<Rightarrow> c2)
            in (c3\<lparr>calculatingShipping := False\<rparr>, w2)))"

text \<open>\<open>Array.prototype.join\<close> on strings.\<close>

fun join :: "jsstring \<Rightarrow> jsstring list \<Rightarrow> jsstring" where
  "join sep [] = []"
| "join sep [x] = x"
| "join sep (x # y # ys) = x @ sep @ join sep (y # ys)"

text \<open>The template literal of the \<open>catch\<close> block: a bullet (U+2022), a space, the issue's message.\<close>

definition bullet_line :: "issue \<Rightarrow> jsstring" where
  "bullet_line i = [0x2022, 0x0020] @ message i"

text \<open>The message that the \<open>catch\<close> block of \<open>handleSubmit\<close> passes to \<open>setError\<close>.\<close>

definition submit_catch :: "api_error \<Rightarrow> jsstring" where
  "submit_catch err =
     (if response_error err = Some (str ''Cart validation failed'') \<and> response_issues err \<noteq> None
      then (let issues = the (response_issues err);
                errorMessages = join [0x000A] (map bullet_line issues)
            in str ''Unable to complete order:'' @ [0x000A] @ errorMessages)
      else or_else (response_error err) (str ''An error occurred. Please try again.''))"

definition pickup_address :: "jsstring \<Rightarrow> ShippingAddress" where
  "pickup_address n =
     \<lparr>name_addr = n, street1 = str ''Pickup'', street2 = None,
      city = str ''Hag'' @ [0x00E5] @ str ''t'' @ [0x00F1] @ str ''a'',
      state = str ''GU'', zip_addr = str ''96910'', country = Some (str ''US'')\<rparr>"

definition pickup_method :: ShippingMethod where
  "pickup_method =
     \<lparr>carrier = str ''PICKUP'', service = str ''In-Store Pickup'', rate_cents = 0,
      rate_id = None, delivery_days = None\<rparr>"

definition payment_for :: "app_mode option \<Rightarrow> PaymentMethod" where
  "payment_for m =
     \<lparr>payment_token = (if m = Some test then None else Some (str ''tok_test_placeholder'')),
      payment_type = (if m = Some test then str ''test'' else str ''stripe'')\<rparr>"

text \<open>
  The \<open>try\<close> block of \<open>handleSubmit\<close>. \<open>Inl\<close> is the error thrown out of it, by the token
  provider, by order creation or by \<open>clearCart\<close>; \<open>Inr\<close> is its normal end, the early
  \<open>return\<close> included.
\<close>

definition submit_try :: "env \<Rightarrow> checkout \<Rightarrow> world \<Rightarrow> (api_error + unit) \<times> checkout \<times> world" where
  "submit_try e c w0 =
     (case acquireToken e c w0 of
        (rejected err, w1) \<Rightarrow> (Inl err, c, w1)
      | (resolved token, w1) \<Rightarrow>
          (if deliveryMethod c = shipping \<and> shippingMethod c = None
           then (Inr (), c\<lparr>error := Some (str ''Please select a shipping method''),
                             loading := False\<rparr>, w1)
           else
             (let od = \<lparr>order_email = email c, order_phone = phone c,
                        payment_method = payment_for (appConfig c),
                        shipping_address =
                          (if deliveryMethod c = shipping
                           then (shippingAddress c)\<lparr>name_addr := name c\<rparr>
                           else pickup_address (name c)),
                        shipping_method =
                          (if deliveryMethod c = shipping then the (shippingMethod c)
                           else pickup_method)\<rparr>;
                  sid = sessionId (store w1);
                  r = createOrder e (trace w1) od token sid;
                  w2 = emit (CreateOrder od token sid) w1
              in case r of
                   rejected err \<Rightarrow> (Inl err, c, w2)
                 | resolved response \<Rightarrow>
                     (if success response then
                        (case clearCart e w2 of
                           (Inl err, w3) \<Rightarrow> (Inl err, c, w3)
                         | (Inr u, w3) \<Rightarrow>
                             (Inr (), c, emit (Navigate (order_route (order_id response))) w3))
                      else (Inr (), c\<lparr>error :=
                                        Some (str ''Failed to create order. Please try again.'')\<rparr>,
                            w2)))))"

definition handleSubmit :: "env \<Rightarrow> checkout \<times> world \<Rightarrow> checkout \<times> world" where
  "handleSubmit e cw =
     (let (c, w) = cw;
          c1 = c\<lparr>error := None, loading := True\<rparr>;
          (r, c2, w2) = submit_try e c1 w;
          c3 = (case r of Inl err \<Rightarrow> c2\<lparr>error := Some (submit_catch err)\<rparr> | Inr u \<Rightarrow> c2)
      in (c3\<lparr>loading := False\<rparr>, w2))"

text \<open>\<open>String.prototype.split\<close> at one separator code unit: the lines of a message.\<close>

fun split_at :: "16 word \<Rightarrow> jsstring \<Rightarrow> jsstring list" where
  "split_at sep [] = [Nil]"
| "split_at sep (c # cs) =
     (if c = sep then [] # split_at sep cs
      else (case split_at sep cs of l # ls \<Rightarrow> (c # l) # ls | [] \<Rightarrow> [c # Nil]))"

section \<open>Admin import page: status polling\<close>

datatype import_status = pending | processing | completed | failed

record ImportUser =
  user_id :: int
  user_name :: jsstring
  user_email :: jsstring

record Import =
  import_id :: int
  status :: import_status
  filename :: jsstring
  inventory_filename :: "jsstring option"
  products_count :: int
  variants_count :: int
  images_count :: int
  collections_count :: int
  skipped_count :: int
  started_at :: "jsstring option"
  completed_at :: "jsstring option"
  duration :: "int option"
  created_at :: jsstring
  user :: ImportUser

datatype import_call = fetchImportStatus_call int | fetchImports_call

text \<open>
  The page: its two state cells, the requests that await a reply (status requests by the
  import id they ask for, list requests by their number), and every call made so far.
\<close>

record import_page =
  currentImport :: "Import option"
  imports_list :: "Import list"
  status_in_flight :: "int list"
  list_in_flight :: nat
  issued :: "import_call list"

text \<open>
  The polling effect: after every change of \<open>currentImport\<close> the old interval is cleared,
  and a new one is set exactly when a job is watched whose status is pending or processing.
\<close>

definition polling :: "import_page \<Rightarrow> bool" where
  "polling p =
     (case currentImport p of
        None \<Rightarrow> False
      | Some i \<Rightarrow> status i = pending \<or> status i = processing)"

text \<open>Each asynchronous function is split at its \<open>await\<close>: the call, and what runs on the reply.\<close>

definition fetchImports :: "import_page \<Rightarrow> import_page" where
  "fetchImports p =
     p\<lparr>list_in_flight := Suc (list_in_flight p), issued := issued p @ [fetchImports_call]\<rparr>"

definition fetchImports_reply :: "Import list reply \<Rightarrow> import_page \<Rightarrow> import_page" where
  "fetchImports_reply r p = (case r of resolved l \<Rightarrow> p\<lparr>imports_list := l\<rparr> | rejected err \<Rightarrow> p)"

definition fetchImportStatus :: "int \<Rightarrow> import_page \<Rightarrow> import_page" where
  "fetchImportStatus importId p =
     p\<lparr>status_in_flight := status_in_flight p @ [importId],
       issued := issued p @ [fetchImportStatus_call importId]\<rparr>"

definition fetchImportStatus_reply :: "int \<Rightarrow> Import reply \<Rightarrow> import_page \<Rightarrow> import_page" where
  "fetchImportStatus_reply importId r p =
     (case r of
        resolved importData \<Rightarrow>
          (let p1 = p\<lparr>currentImport := Some importData,
                      imports_list := map (\<lambda>imp. if import_id imp = importId then importData else imp)
                                   (imports_list p)\<rparr>
           in if status importData = completed \<or> status importData = failed
              then fetchImports (p1\<lparr>currentImport := None\<rparr>)
              else p1)
      | rejected err \<Rightarrow> p)"

text \<open>
  What can happen to the page while it polls: the interval fires, or an outstanding
  request is answered. An event that cannot happen in a state gives \<open>None\<close>.
\<close>

datatype event = tick | status_reply int "Import reply" | list_reply "Import list reply"

fun step :: "event \<Rightarrow> import_page \<Rightarrow> import_page option" where
  "step tick p =
     (case currentImport p of
        None \<Rightarrow> None
      | Some i \<Rightarrow> if polling p then Some (fetchImportStatus (import_id i) p) else None)"
| "step (status_reply importId r) p =
     (if importId \<in> set (status_in_flight p)
      then Some (fetchImportStatus_reply importId r
                   (p\<lparr>status_in_flight := remove1 importId (status_in_flight p)\<rparr>))
      else None)"
| "step (list_reply r) p =
     (if 0 < list_in_flight p
      then Some (fetchImports_reply r (p\<lparr>list_in_flight := list_in_flight p - 1\<rparr>))
      else None)"

fun run :: "event list \<Rightarrow> import_page \<Rightarrow> import_page option" where
  "run [] p = Some p"
| "run (ev # evs) p = (case step ev p of None \<Rightarrow> None | Some p' \<Rightarrow> run evs p')"

definition refreshes :: "import_page \<Rightarrow> nat" where
  "refreshes p = length (filter (\<lambda>c. c = fetchImports_call) (issued p))"

section \<open>Example data\<close>

definition example_cart :: Cart where
  "example_cart =
     \<lparr>items = [\<lparr>item_id = 11, quantity = 2, item_subtotal_cents = 5000\<rparr>],
      item_count = 2, subtotal_cents = 5000\<rparr>"

definition example_world :: world where
  "example_world =
     \<lparr>store = \<lparr>cart = Some example_cart, isLoading = False, isOpen = False,
               sessionId = Some (str ''guest-1'')\<rparr>,
      trace = []\<rparr>"

definition example_error :: api_error where
  "example_error = \<lparr>response_error = Some (str ''Insufficient stock''), response_issues = None\<rparr>"

definition validation_error :: api_error where
  "validation_error =
     \<lparr>response_error = Some (str ''Cart validation failed''),
      response_issues = Some [\<lparr>message = str ''Tee is out of stock''\<rparr>,
                              \<lparr>message = str ''Only 1 Cap left''\<rparr>]\<rparr>"

definition usps_rate :: ShippingMethod where
  "usps_rate =
     \<lparr>carrier = str ''USPS'', service = str ''Priority'', rate_cents = 950,
      rate_id = Some (str ''rate_1''), delivery_days = Some 3\<rparr>"

definition ups_rate :: ShippingMethod where
  "ups_rate =
     \<lparr>carrier = str ''UPS'', service = str ''Ground'', rate_cents = 1200,
      rate_id = Some (str ''rate_2''), delivery_days = None\<rparr>"

text \<open>A server that rejects everything, and one that rejects only reads of the cart.\<close>

definition env_down :: env where
  "env_down =
     \<lparr>api = (\<lambda>h r. rejected example_error),
      getToken = (\<lambda>h. rejected example_error),
      calculateRates = (\<lambda>h a s t. rejected example_error),
      createOrder = (\<lambda>h d t s. rejected validation_error)\<rparr>"

definition env_no_read :: env where
  "env_no_read =
     \<lparr>api = (\<lambda>h r. if req_method r = GET then rejected example_error else resolved None),
      getToken = (\<lambda>h. resolved (Some (str ''jwt''))),
      calculateRates = (\<lambda>h a s t. resolved [usps_rate, ups_rate]),
      createOrder = (\<lambda>h d t s. resolved \<lparr>success = True, order_id = 42\<rparr>)\<rparr>"


definition example_checkout :: checkout where
  "example_checkout =
     \<lparr>name = str ''Ana Cruz'', email = str ''ana@example.com'', phone = str ''671 555 0100'',
      deliveryMethod = shipping,
      shippingAddress =
        \<lparr>name_addr = [], street1 = str ''1 Marine Dr'', street2 = None, city = str ''Tamuning'',
         state = str ''GU'', zip_addr = str ''96913'', country = Some (str ''US'')\<rparr>,
      shippingMethod = None, availableShippingRates = [], calculatingShipping = False,
      shippingError = None, loading = False, error = None,
      isSignedIn = False, authLoaded = True, appConfig = Some test\<rparr>"

definition example_browser :: browser where
  "example_browser =
     \<lparr>localStorage = Map.empty,
      uuid_supply = (\<lambda>n. str ''3f2b8c1e-0000-4000-8000-'' @ replicate 12 (of_nat (48 + n mod 10))),
      uuid_count = 0\<rparr>"

definition example_import :: Import where
  "example_import =
     \<lparr>import_id = 7, status = pending, filename = str ''products.csv'',
      inventory_filename = None, products_count = 0, variants_count = 0, images_count = 0,
      collections_count = 0, skipped_count = 0, started_at = None, completed_at = None,
      duration = None, created_at = str ''2025-01-01T00:00:00Z'',
      user = \<lparr>user_id = 1, user_name = str ''Admin'', user_email = str ''admin@example.com''\<rparr>\<rparr>"

definition example_page :: import_page where
  "example_page =
     \<lparr>currentImport = Some example_import, imports_list = [example_import],
      status_in_flight = [], list_in_flight = 0, issued = []\<rparr>"

section \<open>Strings: lemmas\<close>

lemma dropWhile_rev_empty:
  "dropWhile P (rev (dropWhile P xs)) = [] \<longleftrightarrow> dropWhile P xs = []"
proof
  assume e: "dropWhile P (rev (dropWhile P xs)) = []"
  show "dropWhile P xs = []"
  proof (rule ccontr)
    assume ne: "dropWhile P xs \<noteq> []"
    then have "\<not> P (hd (dropWhile P xs))" by (rule hd_dropWhile)
    moreover have "hd (dropWhile P xs) \<in> set (rev (dropWhile P xs))" using ne by simp
    ultimately show False using e by auto
  qed
next
  assume e: "dropWhile P xs = []"
  show "dropWhile P (rev (dropWhile P xs)) = []" unfolding e by simp
qed

lemma trim_non_blank: "trim s \<noteq> [] \<longleftrightarrow> non_blank s"
proof -
  have "trim s = [] \<longleftrightarrow> dropWhile isWhiteSpace (rev s) = []"
    unfolding trim_def trimStart_def trimEnd_def by (rule dropWhile_rev_empty)
  also have "\<dots> \<longleftrightarrow> (\<forall>c \<in> set s. isWhiteSpace c)" by simp
  finally show ?thesis unfolding non_blank_def by blast
qed

section \<open>Admin products page: theorems\<close>

text \<open>
  C9. The status shown for a variant is Available exactly when its computed
  \<open>actually_available\<close> field is true. When that field is false the label is Out of Stock
  if the inventory level is \<open>variant\<close> and the stock quantity is at most 0, and Disabled
  otherwise. The manual \<open>available\<close> flag does not enter: changing it changes nothing.
\<close>

theorem getVariantStatus_computed_availability:
  "(label (getVariantStatus v lvl) = str ''Available'' \<longleftrightarrow> actually_available v) \<and>
   (\<not> actually_available v \<longrightarrow>
      label (getVariantStatus v lvl) =
        (if lvl = str ''variant'' \<and> stock_quantity v \<le> 0
         then str ''Out of Stock'' else str ''Disabled'')) \<and>
   getVariantStatus (v\<lparr>available := b\<rparr>) lvl = getVariantStatus v lvl"
  by (simp add: getVariantStatus_def str_def)

theorem getVariantStatus_computed_availability_witness:
  "\<not> actually_available
       \<lparr>variant_id = 1, variant_size = str ''M'', color = str ''Red'',
        variant_name = str ''M / Red'', display_name = str ''M / Red'', sku = str ''HAF-M-RED'',
        price_cents = 2500, stock_quantity = 0, available = True,
        actually_available = False, low_stock = False\<rparr> \<and>
   label (getVariantStatus
       \<lparr>variant_id = 1, variant_size = str ''M'', color = str ''Red'',
        variant_name = str ''M / Red'', display_name = str ''M / Red'', sku = str ''HAF-M-RED'',
        price_cents = 2500, stock_quantity = 0, available = True,
        actually_available = False, low_stock = False\<rparr> (str ''variant''))
     = str ''Out of Stock''"
  using getVariantStatus_computed_availability
    [of "\<lparr>variant_id = 1, variant_size = str ''M'', color = str ''Red'',
        variant_name = str ''M / Red'', display_name = str ''M / Red'', sku = str ''HAF-M-RED'',
        price_cents = 2500, stock_quantity = 0, available = True,
        actually_available = False, low_stock = False\<rparr>" "str ''variant''"]
  by simp

section \<open>Checkout page: form validity\<close>

text \<open>
  C1. With delivery method pickup the form is valid exactly when name, email and phone
  are non-blank. With delivery method shipping it is valid exactly when, in addition,
  street1, city, state and zip of the shipping address are non-blank and a shipping
  method is selected. Neither street2 nor country is read.
\<close>

theorem isFormValid_iff:
  "(deliveryMethod c = pickup \<longrightarrow>
      (isFormValid c \<longleftrightarrow> non_blank (name c) \<and> non_blank (email c) \<and> non_blank (phone c))) \<and>
   (deliveryMethod c = shipping \<longrightarrow>
      (isFormValid c \<longleftrightarrow>
         non_blank (name c) \<and> non_blank (email c) \<and> non_blank (phone c) \<and>
         non_blank (street1 (shippingAddress c)) \<and> non_blank (city (shippingAddress c)) \<and>
         non_blank (state (shippingAddress c)) \<and> non_blank (zip_addr (shippingAddress c)) \<and>
         shippingMethod c \<noteq> None)) \<and>
   isFormValid (c\<lparr>shippingAddress := (shippingAddress c)\<lparr>street2 := s2, country := co\<rparr>\<rparr>)
     = isFormValid c"
  by (simp add: isFormValid_def Let_def trim_non_blank)

theorem isFormValid_iff_witness:
  "deliveryMethod (example_checkout\<lparr>shippingMethod := Some usps_rate\<rparr>) = shipping \<and>
   isFormValid (example_checkout\<lparr>shippingMethod := Some usps_rate\<rparr>) \<and>
   \<not> isFormValid example_checkout \<and>
   deliveryMethod (example_checkout\<lparr>deliveryMethod := pickup\<rparr>) = pickup \<and>
   isFormValid (example_checkout\<lparr>deliveryMethod := pickup\<rparr>)"
  using isFormValid_iff [of "example_checkout\<lparr>shippingMethod := Some usps_rate\<rparr>"]
    isFormValid_iff [of example_checkout]
    isFormValid_iff [of "example_checkout\<lparr>deliveryMethod := pickup\<rparr>"]
  by (simp add: example_checkout_def non_blank_def str_def isWhiteSpace_def)

section \<open>Cart store: theorems\<close>

lemma requests_append: "requests (xs @ ys) = requests xs @ requests ys"
  by (induction xs rule: requests.induct) auto

text \<open>
  C6. When the request of \<open>fetchCart\<close> is rejected, the store afterwards is the store
  before with the loading flag cleared: the cached cart, the panel flag and the session
  identifier keep their values.
\<close>

theorem fetchCart_failure_frame:
  assumes "api e (trace w) \<lparr>req_method = GET, req_url = cart_url, req_data = no_payload,
                            req_session = sessionId (store w)\<rparr> = rejected err"
  shows "store (fetchCart e w) = (store w)\<lparr>isLoading := False\<rparr> \<and>
         cart (store (fetchCart e w)) = cart (store w) \<and>
         isOpen (store (fetchCart e w)) = isOpen (store w) \<and>
         sessionId (store (fetchCart e w)) = sessionId (store w) \<and>
         \<not> isLoading (store (fetchCart e w))"
  using assms by (simp add: fetchCart_def http_def set_store_def emit_def)

theorem fetchCart_failure_frame_witness:
  "api env_down (trace example_world)
     \<lparr>req_method = GET, req_url = cart_url, req_data = no_payload,
      req_session = sessionId (store example_world)\<rparr> = rejected example_error \<and>
   store (fetchCart env_down example_world) =
     \<lparr>cart = Some example_cart, isLoading = False, isOpen = False,
      sessionId = Some (str ''guest-1'')\<rparr>"
proof -
  have h: "api env_down (trace example_world)
     \<lparr>req_method = GET, req_url = cart_url, req_data = no_payload,
      req_session = sessionId (store example_world)\<rparr> = rejected example_error"
    by (simp add: env_down_def)
  from fetchCart_failure_frame [OF h] h show ?thesis
    by (simp add: example_world_def)
qed

text \<open>
  C2. When the DELETE of \<open>clearCart\<close> succeeds, the call returns normally, the cached cart
  is empty, the derived item count and subtotal are 0, and the only call made is that one
  DELETE: the cart is not fetched again.
\<close>

theorem clearCart_success:
  assumes "api e (trace w) \<lparr>req_method = DELETE, req_url = cart_url, req_data = no_payload,
                            req_session = sessionId (store w)\<rparr> = resolved d"
  shows "fst (clearCart e w) = Inr () \<and>
         cart (store (snd (clearCart e w))) = None \<and>
         itemCount (store (snd (clearCart e w))) = 0 \<and>
         subtotal (store (snd (clearCart e w))) = 0 \<and>
         trace (snd (clearCart e w)) =
           trace w @ [Http \<lparr>req_method = DELETE, req_url = cart_url, req_data = no_payload,
                             req_session = sessionId (store w)\<rparr>]"
  using assms
  by (simp add: clearCart_def http_def set_store_def emit_def itemCount_def subtotal_def)

theorem clearCart_success_witness:
  "api env_no_read (trace example_world)
     \<lparr>req_method = DELETE, req_url = cart_url, req_data = no_payload,
      req_session = sessionId (store example_world)\<rparr> = resolved None \<and>
   itemCount (store example_world) = 2 \<and>
   itemCount (store (snd (clearCart env_no_read example_world))) = 0 \<and>
   subtotal (store (snd (clearCart env_no_read example_world))) = 0 \<and>
   trace (snd (clearCart env_no_read example_world)) =
     [Http \<lparr>req_method = DELETE, req_url = cart_url, req_data = no_payload,
            req_session = Some (str ''guest-1'')\<rparr>]"
proof -
  have h: "api env_no_read (trace example_world)
     \<lparr>req_method = DELETE, req_url = cart_url, req_data = no_payload,
      req_session = sessionId (store example_world)\<rparr> = resolved None"
    by (simp add: env_no_read_def)
  have "itemCount (store example_world) = 2"
    by (simp add: itemCount_def example_world_def example_cart_def)
  with clearCart_success [OF h] h show ?thesis
    by (simp add: example_world_def)
qed

text \<open>
  C3. For each of \<open>addItem\<close>, \<open>updateQuantity\<close>, \<open>removeItem\<close> and \<open>clearCart\<close>: when its
  request is rejected with an error, the action ends by throwing that same error, the
  loading flag is false afterwards, and the request was sent once and nothing after it
  (no retry, no fetch of the cart).
\<close>

theorem mutation_failure:
  "(api e (trace w) \<lparr>req_method = POST, req_url = cart_items_url,
                      req_data = item_payload variantId qty,
                      req_session = sessionId (store w)\<rparr> = rejected err \<longrightarrow>
      fst (addItem e variantId qty w) = Inl err \<and>
      \<not> isLoading (store (snd (addItem e variantId qty w))) \<and>
      requests (trace (snd (addItem e variantId qty w))) =
        requests (trace w) @ [\<lparr>req_method = POST, req_url = cart_items_url,
                                req_data = item_payload variantId qty,
                                req_session = sessionId (store w)\<rparr>]) \<and>
   (api e (trace w) \<lparr>req_method = PUT, req_url = cart_item_url cartItemId,
                      req_data = quantity_payload qty,
                      req_session = sessionId (store w)\<rparr> = rejected err \<longrightarrow>
      fst (updateQuantity e cartItemId qty w) = Inl err \<and>
      \<not> isLoading (store (snd (updateQuantity e cartItemId qty w))) \<and>
      requests (trace (snd (updateQuantity e cartItemId qty w))) =
        requests (trace w) @ [\<lparr>req_method = PUT, req_url = cart_item_url cartItemId,
                                req_data = quantity_payload qty,
                                req_session = sessionId (store w)\<rparr>]) \<and>
   (api e (trace w) \<lparr>req_method = DELETE, req_url = cart_item_url cartItemId,
                      req_data = no_payload,
                      req_session = sessionId (store w)\<rparr> = rejected err \<longrightarrow>
      fst (removeItem e cartItemId w) = Inl err \<and>
      \<not> isLoading (store (snd (removeItem e cartItemId w))) \<and>
      requests (trace (snd (removeItem e cartItemId w))) =
        requests (trace w) @ [\<lparr>req_method = DELETE, req_url = cart_item_url cartItemId,
                                req_data = no_payload,
                                req_session = sessionId (store w)\<rparr>]) \<and>
   (api e (trace w) \<lparr>req_method = DELETE, req_url = cart_url,
                      req_data = no_payload,
                      req_session = sessionId (store w)\<rparr> = rejected err \<longrightarrow>
      fst (clearCart e w) = Inl err \<and>
      \<not> isLoading (store (snd (clearCart e w))) \<and>
      requests (trace (snd (clearCart e w))) =
        requests (trace w) @ [\<lparr>req_method = DELETE, req_url = cart_url,
                                req_data = no_payload,
                                req_session = sessionId (store w)\<rparr>])"
  by (simp add: addItem_def addItem_catch_def updateQuantity_def removeItem_def clearCart_def
      http_def set_store_def emit_def requests_append Let_def)

theorem mutation_failure_witness:
  "api env_down (trace example_world)
     \<lparr>req_method = POST, req_url = cart_items_url, req_data = item_payload 5 1,
      req_session = sessionId (store example_world)\<rparr> = rejected example_error \<and>
   api env_down (trace example_world)
     \<lparr>req_method = PUT, req_url = cart_item_url 11, req_data = quantity_payload 1,
      req_session = sessionId (store example_world)\<rparr> = rejected example_error \<and>
   api env_down (trace example_world)
     \<lparr>req_method = DELETE, req_url = cart_item_url 11, req_data = no_payload,
      req_session = sessionId (store example_world)\<rparr> = rejected example_error \<and>
   api env_down (trace example_world)
     \<lparr>req_method = DELETE, req_url = cart_url, req_data = no_payload,
      req_session = sessionId (store example_world)\<rparr> = rejected example_error \<and>
   fst (addItem env_down 5 1 example_world) = Inl example_error \<and>
   fst (updateQuantity env_down 11 1 example_world) = Inl example_error \<and>
   fst (removeItem env_down 11 example_world) = Inl example_error \<and>
   fst (clearCart env_down example_world) = Inl example_error \<and>
   \<not> isLoading (store (snd (addItem env_down 5 1 example_world))) \<and>
   requests (trace (snd (addItem env_down 5 1 example_world))) =
     [\<lparr>req_method = POST, req_url = cart_items_url, req_data = item_payload 5 1,
       req_session = Some (str ''guest-1'')\<rparr>]"
proof -
  have h: "api env_down (trace example_world) r = rejected example_error" for r
    by (simp add: env_down_def)
  from mutation_failure [of env_down example_world 5 1 example_error 11] h show ?thesis
    by (simp add: example_world_def)
qed




section \<open>Session identifier: theorems\<close>

lemma getSessionId_stored:
  assumes "localStorage b (str ''cart_session_id'') = Some u" "u \<noteq> []"
  shows "getSessionId b = (u, b)"
  using assms by (simp add: getSessionId_def)

lemma getSessionId_again_stored:
  assumes "localStorage b (str ''cart_session_id'') = Some u" "u \<noteq> []"
  shows "getSessionId_again n b = (u, b)"
  using assms by (induction n) (simp_all add: getSessionId_stored)

text \<open>
  C8. With no identifier stored, the first call of \<open>getSessionId\<close> generates one
  identifier, returns it and stores it. Any number of calls after that, on the storage
  as the first call left it, return that same identifier and leave the browser as it
  was: nothing is generated and nothing is written. The identifier generated is taken
  to be non-empty, as every UUID is.
\<close>

theorem getSessionId_idempotent:
  assumes "localStorage b (str ''cart_session_id'') = None"
    and "uuid_supply b (uuid_count b) \<noteq> []"
  shows "fst (getSessionId b) = uuid_supply b (uuid_count b) \<and>
         localStorage (snd (getSessionId b)) (str ''cart_session_id'')
           = Some (uuid_supply b (uuid_count b)) \<and>
         uuid_count (snd (getSessionId b)) = Suc (uuid_count b) \<and>
         (\<forall>n. getSessionId_again n (snd (getSessionId b))
                = (uuid_supply b (uuid_count b), snd (getSessionId b)))"
proof -
  let ?u = "uuid_supply b (uuid_count b)"
  let ?b = "snd (getSessionId b)"
  have g: "getSessionId b =
      (?u, b\<lparr>uuid_count := Suc (uuid_count b),
              localStorage := (localStorage b)(str ''cart_session_id'' \<mapsto> ?u)\<rparr>)"
    using assms(1) by (simp add: getSessionId_def randomUUID_def)
  have s: "localStorage ?b (str ''cart_session_id'') = Some ?u"
    by (simp add: g)
  have "\<forall>n. getSessionId_again n ?b = (?u, ?b)"
    using getSessionId_again_stored [OF s assms(2)] by blast
  with s show ?thesis by (simp add: g)
qed

theorem getSessionId_idempotent_witness:
  "localStorage example_browser (str ''cart_session_id'') = None \<and>
   uuid_supply example_browser (uuid_count example_browser) \<noteq> [] \<and>
   uuid_count (snd (getSessionId example_browser)) = 1 \<and>
   fst (getSessionId_again 2 (snd (getSessionId example_browser)))
     = fst (getSessionId example_browser) \<and>
   uuid_count (snd (getSessionId_again 2 (snd (getSessionId example_browser)))) = 1"
proof -
  have h1: "localStorage example_browser (str ''cart_session_id'') = None"
    by (simp add: example_browser_def)
  have h2: "uuid_supply example_browser (uuid_count example_browser) \<noteq> []"
    by (simp add: example_browser_def str_def)
  have c: "uuid_count example_browser = 0"
    by (simp add: example_browser_def)
  from getSessionId_idempotent [OF h1 h2] h1 h2 c show ?thesis
    by simp
qed

section \<open>Checkout page: shipping rates\<close>

lemma acquireToken_frame [simp]:
  "acquireToken e (c\<lparr>calculatingShipping := a, shippingError := b\<rparr>) w = acquireToken e c w"
  "acquireToken e (c\<lparr>error := x, loading := y\<rparr>) w = acquireToken e c w"
  by (simp_all add: acquireToken_def)

lemma rate_address_frame [simp]:
  "rate_address (c\<lparr>calculatingShipping := a, shippingError := b\<rparr>) = rate_address c"
  by (simp add: rate_address_def)

text \<open>
  C4. If street1, city, state or zip of the shipping address is empty,
  \<open>handleCalculateShipping\<close> sets the validation message and changes nothing else: no
  call is made. If all four are non-empty, the token (when one is asked for) is obtained
  and the rate service answers with a list of rates, then that list becomes the list of
  offered rates, and when it is not empty its first rate becomes the selected method.
\<close>

theorem handleCalculateShipping_spec:
  "(street1 (shippingAddress c) = [] \<or> city (shippingAddress c) = [] \<or>
    state (shippingAddress c) = [] \<or> zip_addr (shippingAddress c) = [] \<longrightarrow>
      handleCalculateShipping e (c, w) =
        (c\<lparr>shippingError :=
             Some (str ''Please fill out all required shipping address fields'')\<rparr>, w)) \<and>
   (street1 (shippingAddress c) \<noteq> [] \<and> city (shippingAddress c) \<noteq> [] \<and>
    state (shippingAddress c) \<noteq> [] \<and> zip_addr (shippingAddress c) \<noteq> [] \<and>
    acquireToken e c w = (resolved token, w1) \<and>
    calculateRates e (trace w1) (rate_address c) (sessionId (store w1)) token = resolved rates \<longrightarrow>
      availableShippingRates (fst (handleCalculateShipping e (c, w))) = rates \<and>
      (rates \<noteq> [] \<longrightarrow> shippingMethod (fst (handleCalculateShipping e (c, w))) = Some (hd rates)))"
  by (auto simp add: handleCalculateShipping_def calculate_try_def Let_def split: list.splits)

theorem handleCalculateShipping_spec_witness:
  "city (shippingAddress (example_checkout\<lparr>shippingAddress :=
           (shippingAddress example_checkout)\<lparr>city := []\<rparr>\<rparr>)) = [] \<and>
   snd (handleCalculateShipping env_no_read
          (example_checkout\<lparr>shippingAddress := (shippingAddress example_checkout)\<lparr>city := []\<rparr>\<rparr>,
           example_world)) = example_world \<and>
   street1 (shippingAddress example_checkout) \<noteq> [] \<and>
   city (shippingAddress example_checkout) \<noteq> [] \<and>
   state (shippingAddress example_checkout) \<noteq> [] \<and>
   zip_addr (shippingAddress example_checkout) \<noteq> [] \<and>
   acquireToken env_no_read example_checkout example_world = (resolved None, example_world) \<and>
   calculateRates env_no_read (trace example_world) (rate_address example_checkout)
     (sessionId (store example_world)) None = resolved [usps_rate, ups_rate] \<and>
   availableShippingRates (fst (handleCalculateShipping env_no_read (example_checkout, example_world)))
     = [usps_rate, ups_rate] \<and>
   shippingMethod (fst (handleCalculateShipping env_no_read (example_checkout, example_world)))
     = Some usps_rate"
proof -
  let ?c = "example_checkout\<lparr>shippingAddress := (shippingAddress example_checkout)\<lparr>city := []\<rparr>\<rparr>"
  have a: "city (shippingAddress ?c) = []" by simp
  have b: "street1 (shippingAddress example_checkout) \<noteq> []"
    "city (shippingAddress example_checkout) \<noteq> []"
    "state (shippingAddress example_checkout) \<noteq> []"
    "zip_addr (shippingAddress example_checkout) \<noteq> []"
    by (simp_all add: example_checkout_def str_def)
  have t: "acquireToken env_no_read example_checkout example_world = (resolved None, example_world)"
    by (simp add: acquireToken_def example_checkout_def)
  have r: "calculateRates env_no_read (trace example_world) (rate_address example_checkout)
     (sessionId (store example_world)) None = resolved [usps_rate, ups_rate]"
    by (simp add: env_no_read_def)
  from handleCalculateShipping_spec [of ?c env_no_read example_world] a
  have 1: "snd (handleCalculateShipping env_no_read (?c, example_world)) = example_world"
    by simp
  from handleCalculateShipping_spec
    [of example_checkout env_no_read example_world None example_world "[usps_rate, ups_rate]"] b t r
  have 2: "availableShippingRates
        (fst (handleCalculateShipping env_no_read (example_checkout, example_world)))
        = [usps_rate, ups_rate]"
    "shippingMethod (fst (handleCalculateShipping env_no_read (example_checkout, example_world)))
        = Some usps_rate"
    by simp_all
  from a b t r 1 2 show ?thesis by simp
qed

section \<open>Checkout page: error message of a failed submission\<close>

lemma split_at_nosep: "sep \<notin> set x \<Longrightarrow> split_at sep x = [x]"
  by (induction x) auto

lemma split_at_append: "sep \<notin> set h \<Longrightarrow> split_at sep (h @ sep # rest) = h # split_at sep rest"
  by (induction h) auto

lemma split_at_join:
  "xs \<noteq> [] \<Longrightarrow> \<forall>x \<in> set xs. sep \<notin> set x \<Longrightarrow> split_at sep (join [sep] xs) = xs"
proof (induction "[sep]" xs rule: join.induct)
  case 1
  then show ?case by simp
next
  case (2 x)
  then show ?case by (simp add: split_at_nosep)
next
  case (3 x y ys)
  then show ?case by (simp add: split_at_append)
qed

lemma header_no_newline: "(0x000A :: 16 word) \<notin> set (str ''Unable to complete order:'')"
  by (simp add: str_def)

lemma bullet_line_no_newline: "0x000A \<notin> set (message i) \<Longrightarrow> 0x000A \<notin> set (bullet_line i)"
  by (simp add: bullet_line_def)

lemma lines_of_validation_message:
  assumes "\<forall>i \<in> set iss. 0x000A \<notin> set (message i)"
  shows "split_at 0x000A
           (str ''Unable to complete order:'' @ [0x000A] @ join [0x000A] (map bullet_line iss))
         = str ''Unable to complete order:'' #
             (if iss = [] then [Nil] else map (\<lambda>i. [0x2022, 0x0020] @ message i) iss)"
proof (cases "iss = []")
  case True
  then show ?thesis using split_at_append [OF header_no_newline, of "[]"] by simp
next
  case False
  have "split_at 0x000A (join [0x000A] (map bullet_line iss)) = map bullet_line iss"
    using False assms by (intro split_at_join) (auto simp: bullet_line_no_newline)
  then show ?thesis
    using False split_at_append [OF header_no_newline, of "join [0x000A] (map bullet_line iss)"]
    by (simp add: bullet_line_def [abs_def])
qed

text \<open>
  C5. Let the \<open>try\<close> block of \<open>handleSubmit\<close> throw an error. If its error field is
  \<open>Cart validation failed\<close> and it carries a list of \<open>n\<close> issues, the message shown is
  \<open>Unable to complete order:\<close>, a line feed, and the \<open>n\<close> bullet lines (bullet, space,
  the issue's message) in the order of the issues, joined by line feeds; when no issue
  message holds a line feed, the lines of the message shown are that heading followed by
  exactly those \<open>n\<close> bullet lines (for \<open>n = 0\<close>, by one empty line). For every other error
  the message shown is the server's error string when it has a non-empty one, and the
  fixed fallback otherwise.
\<close>

theorem handleSubmit_error_message:
  assumes "submit_try e (c\<lparr>error := None, loading := True\<rparr>) w = (Inl err, c2, w2)"
  shows "(response_error err = Some (str ''Cart validation failed'') \<and>
          response_issues err = Some iss \<longrightarrow>
            error (fst (handleSubmit e (c, w))) =
              Some (str ''Unable to complete order:'' @ [0x000A] @
                    join [0x000A] (map (\<lambda>i. [0x2022, 0x0020] @ message i) iss)) \<and>
            length (map (\<lambda>i. [0x2022, 0x0020] @ message i) iss) = length iss \<and>
            ((\<forall>i \<in> set iss. 0x000A \<notin> set (message i)) \<longrightarrow>
               split_at 0x000A (the (error (fst (handleSubmit e (c, w))))) =
                 str ''Unable to complete order:'' #
                   (if iss = [] then [Nil] else map (\<lambda>i. [0x2022, 0x0020] @ message i) iss))) \<and>
         (\<not> (response_error err = Some (str ''Cart validation failed'') \<and>
             response_issues err \<noteq> None) \<longrightarrow>
            error (fst (handleSubmit e (c, w))) =
              Some (or_else (response_error err) (str ''An error occurred. Please try again.'')))"
proof -
  have e: "error (fst (handleSubmit e (c, w))) = Some (submit_catch err)"
    using assms by (simp add: handleSubmit_def)
  show ?thesis
    using lines_of_validation_message [of iss]
    by (auto simp add: e submit_catch_def Let_def bullet_line_def [abs_def])
qed

theorem handleSubmit_error_message_witness:
  "fst (submit_try env_down
          (example_checkout\<lparr>shippingMethod := Some usps_rate, error := None, loading := True\<rparr>)
          example_world) = Inl validation_error \<and>
   error (fst (handleSubmit env_down
                 (example_checkout\<lparr>shippingMethod := Some usps_rate\<rparr>, example_world))) =
     Some (str ''Unable to complete order:'' @ [0x000A] @
           [0x2022, 0x0020] @ str ''Tee is out of stock'' @ [0x000A] @
           [0x2022, 0x0020] @ str ''Only 1 Cap left'') \<and>
   split_at 0x000A
     (the (error (fst (handleSubmit env_down
                         (example_checkout\<lparr>shippingMethod := Some usps_rate\<rparr>, example_world))))) =
     [str ''Unable to complete order:'',
      [0x2022, 0x0020] @ str ''Tee is out of stock'',
      [0x2022, 0x0020] @ str ''Only 1 Cap left''] \<and>
   fst (submit_try (env_down\<lparr>createOrder := \<lambda>h d t s. rejected example_error\<rparr>)
          (example_checkout\<lparr>shippingMethod := Some usps_rate, error := None, loading := True\<rparr>)
          example_world) = Inl example_error \<and>
   error (fst (handleSubmit (env_down\<lparr>createOrder := \<lambda>h d t s. rejected example_error\<rparr>)
                 (example_checkout\<lparr>shippingMethod := Some usps_rate\<rparr>, example_world))) =
     Some (str ''Insufficient stock'')"
proof -
  let ?c = "example_checkout\<lparr>shippingMethod := Some usps_rate\<rparr>"
  let ?e = "env_down\<lparr>createOrder := \<lambda>h d t s. rejected example_error\<rparr>"
  let ?iss = "[\<lparr>message = str ''Tee is out of stock''\<rparr>, \<lparr>message = str ''Only 1 Cap left''\<rparr>]"
  obtain c2 w2 where
    h1: "submit_try env_down (?c\<lparr>error := None, loading := True\<rparr>) example_world
           = (Inl validation_error, c2, w2)"
    by (simp add: submit_try_def acquireToken_def example_checkout_def env_down_def Let_def)
  obtain c3 w3 where
    h2: "submit_try ?e (?c\<lparr>error := None, loading := True\<rparr>) example_world
           = (Inl example_error, c3, w3)"
    by (simp add: submit_try_def acquireToken_def example_checkout_def env_down_def Let_def)
  have v: "response_error validation_error = Some (str ''Cart validation failed'')"
    "response_issues validation_error = Some ?iss"
    by (simp_all add: validation_error_def)
  have n: "\<forall>i \<in> set ?iss. 0x000A \<notin> set (message i)"
    by (simp add: str_def)
  have g: "\<not> (response_error example_error = Some (str ''Cart validation failed'') \<and>
              response_issues example_error \<noteq> None)"
    "or_else (response_error example_error) (str ''An error occurred. Please try again.'')
       = str ''Insufficient stock''"
    by (simp_all add: example_error_def or_else_def str_def)
  from handleSubmit_error_message [OF h1, of ?iss] v
  have k: "error (fst (handleSubmit env_down (?c, example_world))) =
              Some (str ''Unable to complete order:'' @ [0x000A] @
                    join [0x000A] (map (\<lambda>i. [0x2022, 0x0020] @ message i) ?iss))"
    "(\<forall>i \<in> set ?iss. 0x000A \<notin> set (message i)) \<longrightarrow>
       split_at 0x000A (the (error (fst (handleSubmit env_down (?c, example_world))))) =
         str ''Unable to complete order:'' #
           (if ?iss = [] then [Nil] else map (\<lambda>i. [0x2022, 0x0020] @ message i) ?iss)"
    by blast+
  have 1: "error (fst (handleSubmit env_down (?c, example_world))) =
     Some (str ''Unable to complete order:'' @ [0x000A] @
           [0x2022, 0x0020] @ str ''Tee is out of stock'' @ [0x000A] @
           [0x2022, 0x0020] @ str ''Only 1 Cap left'')"
    using k(1) by simp
  have 3: "split_at 0x000A (the (error (fst (handleSubmit env_down (?c, example_world))))) =
     [str ''Unable to complete order:'',
      [0x2022, 0x0020] @ str ''Tee is out of stock'',
      [0x2022, 0x0020] @ str ''Only 1 Cap left'']"
    using k(2) n by simp
  from handleSubmit_error_message [OF h2] g
  have 2: "error (fst (handleSubmit ?e (?c, example_world))) = Some (str ''Insufficient stock'')"
    by simp
  from h1 h2 1 2 3 show ?thesis by simp
qed

section \<open>Admin import page: theorems\<close>

lemma run_idle:
  "currentImport p = None \<Longrightarrow> status_in_flight p = [] \<Longrightarrow> run evs p = Some p' \<Longrightarrow>
     issued p' = issued p \<and> currentImport p' = None \<and> status_in_flight p' = []"
proof (induction evs arbitrary: p)
  case Nil
  then show ?case by simp
next
  case (Cons ev evs)
  show ?case
  proof (cases ev)
    case tick
    with Cons.prems show ?thesis by simp
  next
    case (status_reply importId r)
    with Cons.prems show ?thesis by simp
  next
    case (list_reply r)
    let ?q = "fetchImports_reply r (p\<lparr>list_in_flight := list_in_flight p - 1\<rparr>)"
    from Cons.prems list_reply have r: "run evs ?q = Some p'"
      by (simp split: if_splits)
    have "currentImport ?q = None" "status_in_flight ?q = []" "issued ?q = issued p"
      using Cons.prems(1,2) by (simp_all add: fetchImports_reply_def split: reply.splits)
    with Cons.IH [OF _ _ r] show ?thesis by simp
  qed
qed

lemma terminal_reply:
  assumes "step (status_reply importId (resolved d)) p = Some q"
    and "status d = completed \<or> status d = failed"
  shows "currentImport q = None \<and> step tick q = None \<and>
         issued q = issued p @ [fetchImports_call] \<and>
         status_in_flight q = remove1 importId (status_in_flight p)"
  using assms
  by (auto simp add: fetchImportStatus_reply_def fetchImports_def Let_def split: if_splits)

text \<open>
  C7, as the claim states it, fails when two status requests are in flight at once. The
  interval fires twice before the first reply arrives; both replies report completed;
  each reply refreshes the list, so the list is refreshed twice for the one transition.
\<close>

theorem polling_refreshes_twice:
  "map_option issued
     (run [tick, tick,
           status_reply 7 (resolved (example_import\<lparr>status := completed\<rparr>)),
           status_reply 7 (resolved (example_import\<lparr>status := completed\<rparr>))] example_page)
     = Some [fetchImportStatus_call 7, fetchImportStatus_call 7,
             fetchImports_call, fetchImports_call] \<and>
   map_option refreshes
     (run [tick, tick,
           status_reply 7 (resolved (example_import\<lparr>status := completed\<rparr>)),
           status_reply 7 (resolved (example_import\<lparr>status := completed\<rparr>))] example_page)
     = Some 2"
  by (simp add: example_page_def example_import_def polling_def fetchImportStatus_def
      fetchImportStatus_reply_def fetchImports_def refreshes_def Let_def)

text \<open>
  C7, amended. The interval fires, and a status request is made, only while a job is
  watched whose status is pending or processing. A status reply that reports completed
  or failed clears the watched job, so that the interval cannot fire, and makes one call
  to refresh the list. When that reply answers the only status request in flight, then
  whatever replies follow, the calls made from then on are that one refresh and nothing
  else: no status request, no second refresh.
\<close>

theorem polling_terminal_reply:
  "(step tick p = Some p' \<longrightarrow>
      (\<exists>i. currentImport p = Some i \<and> (status i = pending \<or> status i = processing) \<and>
           issued p' = issued p @ [fetchImportStatus_call (import_id i)])) \<and>
   (step (status_reply importId (resolved d)) p = Some q \<and>
    (status d = completed \<or> status d = failed) \<longrightarrow>
      currentImport q = None \<and> step tick q = None \<and> issued q = issued p @ [fetchImports_call]) \<and>
   (status_in_flight p = [importId] \<and> (status d = completed \<or> status d = failed) \<and>
    run (status_reply importId (resolved d) # evs) p = Some r \<longrightarrow>
      issued r = issued p @ [fetchImports_call])"
proof (intro conjI impI)
  assume "step tick p = Some p'"
  then show "\<exists>i. currentImport p = Some i \<and> (status i = pending \<or> status i = processing) \<and>
           issued p' = issued p @ [fetchImportStatus_call (import_id i)]"
    by (auto simp add: polling_def fetchImportStatus_def split: option.splits if_splits)
next
  assume a: "step (status_reply importId (resolved d)) p = Some q \<and>
    (status d = completed \<or> status d = failed)"
  then show "currentImport q = None" "step tick q = None" "issued q = issued p @ [fetchImports_call]"
    using terminal_reply [of importId d p q] by simp_all
next
  assume a: "status_in_flight p = [importId] \<and> (status d = completed \<or> status d = failed) \<and>
    run (status_reply importId (resolved d) # evs) p = Some r"
  then obtain q where q: "step (status_reply importId (resolved d)) p = Some q" "run evs q = Some r"
    by (auto split: option.splits if_splits)
  from terminal_reply [OF q(1)] a
  have "currentImport q = None" "status_in_flight q = []" "issued q = issued p @ [fetchImports_call]"
    by simp_all
  with run_idle [OF _ _ q(2)] show "issued r = issued p @ [fetchImports_call]" by simp
qed

theorem polling_terminal_reply_witness:
  "step tick example_page = Some (fetchImportStatus 7 example_page) \<and>
   status_in_flight (fetchImportStatus 7 example_page) = [7] \<and>
   status (example_import\<lparr>status := completed\<rparr>) = completed \<and>
   run [status_reply 7 (resolved (example_import\<lparr>status := completed\<rparr>)), list_reply (resolved [])]
     (fetchImportStatus 7 example_page) \<noteq> None \<and>
   issued (the (run [status_reply 7 (resolved (example_import\<lparr>status := completed\<rparr>)),
                     list_reply (resolved [])] (fetchImportStatus 7 example_page)))
     = [fetchImportStatus_call 7, fetchImports_call]"
proof -
  let ?d = "example_import\<lparr>status := completed\<rparr>"
  let ?p = "fetchImportStatus 7 example_page"
  let ?evs = "[list_reply (resolved [])]"
  have h1: "step tick example_page = Some ?p"
    by (simp add: example_page_def example_import_def polling_def)
  have h2: "status_in_flight ?p = [7]"
    by (simp add: example_page_def fetchImportStatus_def)
  have h3: "status ?d = completed" by simp
  obtain r where r: "run (status_reply 7 (resolved ?d) # ?evs) ?p = Some r"
    by (simp add: example_page_def example_import_def fetchImportStatus_def
        fetchImportStatus_reply_def fetchImports_def fetchImports_reply_def Let_def)
  from polling_terminal_reply
    [where p = ?p and importId = 7 and d = ?d and evs = ?evs and r = r] h2 h3 r
  have "issued r = issued ?p @ [fetchImports_call]" by blast
  then have "issued r = [fetchImportStatus_call 7, fetchImports_call]"
    by (simp add: example_page_def fetchImportStatus_def)
  with h1 h2 h3 r show ?thesis by simp
qed

end
